theory Spec2Isabelle
  imports Main
begin

section \<open>Values, exceptions and the environment\<close>

text \<open>
  The embedding covers \<open>er_ccapi_python/client/auth_service.py\<close> (class \<open>AuthService\<close>)
  and the method \<open>GraphqlClient.query\<close> of \<open>er_ccapi_python/client/gql_client.py\<close>.
  Python exceptions are values of \<open>exn\<close>; a method returns its outcome (\<open>Inl\<close> the
  exception raised, \<open>Inr\<close> the value returned) together with the object after the call,
  since an attribute written before a \<open>raise\<close> stays written. Text is ASCII, one
  \<open>char\<close> per code point. Calls run one after another: threads are not modelled.
\<close>

datatype exn =
    ValueError string
  | KeyError string
  | TypeError
  | OSError
  | GraphQLError
  | TransportProtocolError
  | TransportQueryError
  | TransportClosed
  | TransportServerError
  | SchedulerNotRunningError
  | AttributeError
  | OverflowError
  | OtherException string

text \<open>
  A configuration entry \<open>d[k]\<close>: the key is missing (\<open>Absent\<close>, subscripting raises
  \<open>KeyError\<close>), holds \<open>None\<close> (\<open>Null\<close>), or holds a value of the documented type.
\<close>

datatype 'a setting = Absent | Null | Given 'a

record auth_section =
  endpoint :: "string setting"
  user_email :: "string setting"
  user_api_key_file :: "string setting"
  user_api_key :: "string setting"
  refresh_interval :: "int setting"

record api_section =
  production_deployment :: "bool setting"
  prod_url :: "string setting"
  dev_url :: "string setting"

record config =
  auth_service_cfg :: "auth_section option"
  api_cfg :: "api_section option"

text \<open>The body of an HTTP answer as \<open>response.json()\<close> sees it.\<close>

datatype body =
    Malformed
  | NonObject
  | Object "string \<rightharpoonup> string"

datatype http_outcome =
    Timeout
  | RequestException
  | Response int body

text \<open>One call of \<open>requests.post\<close>: the URL and the keyword arguments.\<close>

record http_request =
  url :: string
  json_arg :: "string \<rightharpoonup> string"
  headers_arg :: "string \<rightharpoonup> string"
  timeout_arg :: int

type_synonym response = "string \<rightharpoonup> string"

datatype exec_outcome = Returned response | Raised exn

text \<open>
  What happens inside \<open>BackgroundScheduler.shutdown\<close> on a scheduler that runs: it
  stops the scheduler, it raises, or it never returns (it waits for the running jobs).
\<close>

datatype shutdown_event = Completes | Fails exn | Blocks

text \<open>
  Everything outside the process: the files, the secret store, what the token endpoint
  answers to the n-th POST, whether the GraphQL schema file loads, what the transport does
  with the n-th \<open>execute\<close>, whether \<open>add_job\<close> raises for an interval of that many
  seconds (it builds a \<open>timedelta\<close> and a first run time from it), and what happens
  inside \<open>shutdown\<close>.
\<close>

record env =
  files :: "string \<rightharpoonup> string"
  docker_secret :: "string \<Rightarrow> string option"
  token_endpoint :: "nat \<Rightarrow> http_outcome"
  schema_load :: "exn option"
  transport :: "nat \<Rightarrow> exec_outcome"
  add_job_fault :: "int \<Rightarrow> exn option"
  shutdown_event :: shutdown_event

section \<open>Library functions the constructor calls\<close>

text \<open>\<open>str.strip()\<close>: the ASCII characters for which \<open>str.isspace\<close> holds.\<close>

definition is_space :: "char \<Rightarrow> bool" where
  "is_space c = (of_char c \<in> {9, 10, 11, 12, 13, 28, 29, 30, 31, 32 :: nat})"

definition strip :: "string \<Rightarrow> string" where
  "strip s = rev (dropWhile is_space (rev (dropWhile is_space s)))"

text \<open>\<open>base64.b64encode\<close> (RFC 4648, standard alphabet, padded) on the bytes of a text.\<close>

definition b64_alphabet :: string where
  "b64_alphabet = ''ABCDEFGHIJKLMNOPQRSTUVWXYZabcdefghijklmnopqrstuvwxyz0123456789+/''"

definition b64_char :: "nat \<Rightarrow> char" where
  "b64_char n = b64_alphabet ! (n mod 64)"

fun b64_groups :: "nat list \<Rightarrow> string" where
  "b64_groups [] = []"
| "b64_groups [a] =
     [b64_char (a div 4), b64_char ((a mod 4) * 16), CHR ''='', CHR ''='']"
| "b64_groups [a, b] =
     [b64_char (a div 4), b64_char ((a mod 4) * 16 + b div 16),
      b64_char ((b mod 16) * 4), CHR ''='']"
| "b64_groups (a # b # c # rest) =
     [b64_char (a div 4), b64_char ((a mod 4) * 16 + b div 16),
      b64_char ((b mod 16) * 4 + c div 64), b64_char (c mod 64)] @ b64_groups rest"

definition b64encode :: "string \<Rightarrow> string" where
  "b64encode s = b64_groups (map of_char s)"

section \<open>AuthService\<close>

text \<open>
  APScheduler's \<open>BackgroundScheduler\<close> as far as the class uses it: whether it runs, and
  the interval jobs added to it.
\<close>

record job =
  seconds :: int
  max_instances :: nat

record scheduler =
  running :: bool
  jobs :: "job list"

text \<open>
  The attributes of an \<open>AuthService\<close> object, and two ghost fields: \<open>posts\<close>, the
  POSTs the object has issued so far, and \<open>schedulers_started\<close>, how many times
  \<open>BackgroundScheduler()\<close> was created and started.
\<close>

record auth_service =
  svc_endpoint :: string
  login_credentials :: string
  svc_refresh_interval :: int
  timeout :: int
  access_token :: "string option"
  auth_scheduler :: "scheduler option"
  posts :: "http_request list"
  schedulers_started :: nat

text \<open>Python's \<open>not v\<close> on an entry and on an optional text.\<close>

fun not_str :: "string setting \<Rightarrow> bool" where
  "not_str (Given s) = (s = [])"
| "not_str _ = True"

fun not_int :: "int setting \<Rightarrow> bool" where
  "not_int (Given n) = (n = 0)"
| "not_int _ = True"

fun not_token :: "string option \<Rightarrow> bool" where
  "not_token None = True"
| "not_token (Some t) = (t = [])"

text \<open>
  \<open>AuthService.__init__\<close> (lines 20 to 66). The result is paired with the network
  requests issued during construction. The value read from \<open>user_api_key\<close> and the one
  from \<open>get_docker_secret\<close> are both overwritten before they are used, as in the source.
  In \<open>init_checks\<close> the four tests are the source's; an entry that passes \<open>not\<close> is
  \<open>Given\<close>, so the last case of the final \<open>case\<close> is never taken.
\<close>

definition read_api_key :: "env \<Rightarrow> auth_section \<Rightarrow> string setting \<Rightarrow> exn + string setting" where
  "read_api_key e sec file =
     (let from_config = (case user_api_key sec of Absent \<Rightarrow> Null | v \<Rightarrow> v);
          from_secret = (case file of
                           Given f \<Rightarrow> (case docker_secret e f of None \<Rightarrow> Null | Some k \<Rightarrow> Given k)
                         | _ \<Rightarrow> Null)
      in case file of
           Given f \<Rightarrow> (case files e f of
                         None \<Rightarrow> Inl OSError
                       | Some text \<Rightarrow> Inr (Given (strip text)))
         | _ \<Rightarrow> Inr from_secret)"

definition init_checks ::
  "string setting \<Rightarrow> string setting \<Rightarrow> string setting \<Rightarrow> int setting \<Rightarrow> exn + auth_service" where
  "init_checks ep email key interval =
     (if not_str ep then Inl (ValueError ''Auth service endpoint must be provided.'')
      else if not_str email then Inl (ValueError ''User email must be provided.'')
      else if not_str key then Inl (ValueError ''User api key must be provided.'')
      else if not_int interval then Inl (ValueError ''Refresh interval must be provided.'')
      else case (ep, email, key, interval) of
             (Given ep', Given email', Given key', Given interval') \<Rightarrow>
               Inr \<lparr>svc_endpoint = ep',
                    login_credentials = b64encode (email' @ '':'' @ key'),
                    svc_refresh_interval = interval',
                    timeout = 5,
                    access_token = None,
                    auth_scheduler = None,
                    posts = [],
                    schedulers_started = 0\<rparr>
           | _ \<Rightarrow> Inl TypeError)"

definition AuthService_init :: "env \<Rightarrow> config \<Rightarrow> (exn + auth_service) \<times> http_request list" where
  "AuthService_init e cfg =
     (case auth_service_cfg cfg of
        None \<Rightarrow> (Inl (ValueError ''Config must contain auth_service parameters.''), [])
      | Some sec \<Rightarrow>
          (case endpoint sec of
             Absent \<Rightarrow> (Inl (KeyError ''endpoint''), [])
           | ep \<Rightarrow>
          (case user_email sec of
             Absent \<Rightarrow> (Inl (KeyError ''user_email''), [])
           | email \<Rightarrow>
          (case user_api_key_file sec of
             Absent \<Rightarrow> (Inl (KeyError ''user_api_key_file''), [])
           | file \<Rightarrow>
          (case read_api_key e sec file of
             Inl x \<Rightarrow> (Inl x, [])
           | Inr key \<Rightarrow>
               (let interval = (case refresh_interval sec of Absent \<Rightarrow> Given 300 | v \<Rightarrow> v)
                in (init_checks ep email key interval, [])))))))"

text \<open>
  \<open>AuthService._handle_access_token\<close> (lines 118 to 140). \<open>requests >= 2.31\<close> is
  required by \<open>setup.py\<close>: there the error of \<open>response.json()\<close> on a body that is not
  JSON is a \<open>RequestException\<close>, so the last handler catches it. A \<open>KeyError\<close> or
  \<open>TypeError\<close> of the subscript \<open>json_response["access_token"]\<close> is caught by no
  handler.
\<close>

definition handle_access_token ::
  "env \<Rightarrow> auth_service \<Rightarrow> string \<Rightarrow> int \<Rightarrow> (exn + unit) \<times> auth_service" where
  "handle_access_token e s creds tmo =
     (let hdrs = [''Content-Type'' \<mapsto> ''application/json'',
                  ''authorization'' \<mapsto> ''Basic '' @ creds];
          req = \<lparr>url = svc_endpoint s, json_arg = Map.empty, headers_arg = hdrs,
                 timeout_arg = tmo\<rparr>;
          s1 = s\<lparr>posts := posts s @ [req]\<rparr>
      in case token_endpoint e (length (posts s)) of
           Timeout \<Rightarrow> (Inr (), s1\<lparr>access_token := None\<rparr>)
         | RequestException \<Rightarrow> (Inr (), s1\<lparr>access_token := None\<rparr>)
         | Response status b \<Rightarrow>
             (if 200 \<le> status \<and> status < 300 then
                (case b of
                   Malformed \<Rightarrow> (Inr (), s1\<lparr>access_token := None\<rparr>)
                 | NonObject \<Rightarrow> (Inl TypeError, s1)
                 | Object d \<Rightarrow>
                     (case d ''access_token'' of
                        None \<Rightarrow> (Inl (KeyError ''access_token''), s1)
                      | Some t \<Rightarrow> (Inr (), s1\<lparr>access_token := Some t\<rparr>)))
              else (Inr (), s1\<lparr>access_token := None\<rparr>)))"

text \<open>
  \<open>AuthService._authenticate\<close> (lines 100 to 116). When there is no scheduler yet, one
  is created, assigned to the attribute and started (lines 108 and 109) before
  \<open>add_job\<close> is called (line 111): when \<open>add_job\<close> raises, the exception leaves
  \<open>_authenticate\<close> and the running scheduler stays assigned, without a job.
\<close>

definition authenticate :: "env \<Rightarrow> auth_service \<Rightarrow> (exn + unit) \<times> auth_service" where
  "authenticate e s =
     (case handle_access_token e s (login_credentials s) (timeout s) of
        (Inl x, s1) \<Rightarrow> (Inl x, s1)
      | (Inr u, s1) \<Rightarrow>
          (case auth_scheduler s1 of
             None \<Rightarrow>
               (case add_job_fault e (svc_refresh_interval s1) of
                  Some x \<Rightarrow>
                    (Inl x,
                     s1\<lparr>auth_scheduler := Some \<lparr>running = True, jobs = []\<rparr>,
                        schedulers_started := Suc (schedulers_started s1)\<rparr>)
                | None \<Rightarrow>
                    (Inr (),
                     s1\<lparr>auth_scheduler :=
                          Some \<lparr>running = True,
                                jobs = [\<lparr>seconds = svc_refresh_interval s1, max_instances = 1\<rparr>]\<rparr>,
                        schedulers_started := Suc (schedulers_started s1)\<rparr>))
           | Some sch \<Rightarrow> (Inr (), s1)))"

text \<open>\<open>AuthService.get_bearer_token\<close> (lines 142 to 154).\<close>

definition get_bearer_token :: "env \<Rightarrow> auth_service \<Rightarrow> (exn + string option) \<times> auth_service" where
  "get_bearer_token e s =
     (case (if not_token (access_token s) \<or> auth_scheduler s = None
            then authenticate e s else (Inr (), s)) of
        (Inl x, s1) \<Rightarrow> (Inl x, s1)
      | (Inr u, s1) \<Rightarrow>
          (case access_token s1 of
             None \<Rightarrow> (Inr None, s1)
           | Some t \<Rightarrow> (if t = [] then (Inr None, s1) else (Inr (Some (''Bearer '' @ t)), s1))))"

text \<open>\<open>AuthService.get_auth_header\<close> (lines 156 to 163).\<close>

definition get_auth_header ::
  "env \<Rightarrow> auth_service \<Rightarrow> (exn + (string \<rightharpoonup> string) option) \<times> auth_service" where
  "get_auth_header e s =
     (case get_bearer_token e s of
        (Inl x, s1) \<Rightarrow> (Inl x, s1)
      | (Inr bearer, s1) \<Rightarrow>
          (if not_token bearer then (Inr None, s1)
           else case bearer of
                  None \<Rightarrow> (Inr None, s1)
                | Some b \<Rightarrow> (Inr (Some [''authorization'' \<mapsto> b]), s1)))"

text \<open>How a call without a result ends: it returns, it raises, or it never returns.\<close>

datatype completion = Returns | Raises exn | Hangs

text \<open>
  \<open>BackgroundScheduler.shutdown\<close>: on a scheduler that does not run it raises
  \<open>SchedulerNotRunningError\<close>; on one that runs it stops it and empties its job store,
  unless the environment makes it raise or block (the scheduler is then taken to stay as
  it was).
\<close>

definition shutdown :: "env \<Rightarrow> scheduler \<Rightarrow> completion \<times> scheduler" where
  "shutdown e sch =
     (if \<not> running sch then (Raises SchedulerNotRunningError, sch)
      else case shutdown_event e of
             Completes \<Rightarrow> (Returns, \<lparr>running = False, jobs = []\<rparr>)
           | Fails x \<Rightarrow> (Raises x, sch)
           | Blocks \<Rightarrow> (Hangs, sch))"

text \<open>
  The object that \<open>__init__\<close> leaves behind, which the interpreter disposes of even when
  \<open>__init__\<close> raised. \<open>Bare\<close>: it raised before line 48 (lines 25, 27 to 29 or 40), so
  only \<open>_logger\<close> is set and the attribute \<open>__auth_scheduler\<close> does not exist.
  \<open>Reset\<close>: one of the checks of lines 51 to 58 raised, so \<open>__access_token\<close> and
  \<open>__auth_scheduler\<close> are \<open>None\<close> and nothing else is set. \<open>Ready\<close>: it returned.
  Only a \<open>Ready\<close> object is ever handed to a caller.
\<close>

datatype service_object = Bare | Reset | Ready auth_service

definition AuthService_object :: "env \<Rightarrow> config \<Rightarrow> service_object" where
  "AuthService_object e cfg =
     (case auth_service_cfg cfg of
        None \<Rightarrow> Bare
      | Some sec \<Rightarrow>
          (case endpoint sec of
             Absent \<Rightarrow> Bare
           | ep \<Rightarrow>
          (case user_email sec of
             Absent \<Rightarrow> Bare
           | email \<Rightarrow>
          (case user_api_key_file sec of
             Absent \<Rightarrow> Bare
           | file \<Rightarrow>
          (case read_api_key e sec file of
             Inl x \<Rightarrow> Bare
           | Inr key \<Rightarrow>
               (let interval = (case refresh_interval sec of Absent \<Rightarrow> Given 300 | v \<Rightarrow> v)
                in case init_checks ep email key interval of
                     Inl x \<Rightarrow> Reset
                   | Inr s \<Rightarrow> Ready s))))))"

text \<open>
  \<open>AuthService.__del__\<close> (lines 91 to 98). Line 93 reads \<open>self.__auth_scheduler\<close>
  outside the \<open>try\<close>: on a \<open>Bare\<close> object that raises \<open>AttributeError\<close>. Inside the
  \<open>try\<close>, the bare \<open>except\<close> passes on any exception of \<open>shutdown\<close>.
\<close>

fun AuthService_del :: "env \<Rightarrow> service_object \<Rightarrow> completion \<times> service_object" where
  "AuthService_del e Bare = (Raises AttributeError, Bare)"
| "AuthService_del e Reset = (Returns, Reset)"
| "AuthService_del e (Ready s) =
     (case auth_scheduler s of
        None \<Rightarrow> (Returns, Ready s)
      | Some sch \<Rightarrow>
          (case shutdown e sch of
             (Returns, sch') \<Rightarrow> (Returns, Ready (s\<lparr>auth_scheduler := Some sch'\<rparr>))
           | (Raises x, sch') \<Rightarrow> (Returns, Ready (s\<lparr>auth_scheduler := Some sch'\<rparr>))
           | (Hangs, sch') \<Rightarrow> (Hangs, Ready (s\<lparr>auth_scheduler := Some sch'\<rparr>))))"

text \<open>
  The calls an \<open>AuthService\<close> receives during its life: the three methods, the scheduler's
  tick (the job added in \<open>_authenticate\<close>, which runs only while the scheduler runs and
  whose exception the scheduler logs), and disposal. Calls listed after a disposal are
  more than a program can make; they are kept so that what holds of every sequence holds
  of the real ones.
\<close>

datatype auth_op = Authenticate | GetBearerToken | GetAuthHeader | Tick | Dispose

fun tick :: "env \<Rightarrow> auth_service \<Rightarrow> auth_service" where
  "tick e s =
     (case auth_scheduler s of
        None \<Rightarrow> s
      | Some sch \<Rightarrow>
          (if running sch \<and> jobs sch \<noteq> []
           then snd (handle_access_token e s (login_credentials s) (timeout s))
           else s))"

fun auth_step :: "env \<Rightarrow> auth_service \<Rightarrow> auth_op \<Rightarrow> auth_service" where
  "auth_step e s Authenticate = snd (authenticate e s)"
| "auth_step e s GetBearerToken = snd (get_bearer_token e s)"
| "auth_step e s GetAuthHeader = snd (get_auth_header e s)"
| "auth_step e s Tick = tick e s"
| "auth_step e s Dispose =
     (case snd (AuthService_del e (Ready s)) of Ready s' \<Rightarrow> s' | other \<Rightarrow> s)"

definition auth_run :: "env \<Rightarrow> auth_service \<Rightarrow> auth_op list \<Rightarrow> auth_service" where
  "auth_run e s ops = foldl (auth_step e) s ops"

section \<open>GraphqlClient\<close>

text \<open>
  The attributes of a \<open>GraphqlClient\<close> that \<open>query\<close> reads or writes: the flag
  \<open>_reauthenticated\<close>, the configuration, the \<open>AuthService\<close>, and the URL and headers the
  current transport was built with. Two ghost fields count the calls of
  \<open>client.execute\<close> (\<open>sends\<close>) and of \<open>_initialize_client\<close> (\<open>inits\<close>).
\<close>

record gql_client =
  reauthenticated :: bool
  client_config :: config
  auth :: auth_service
  transport_url :: "string option"
  transport_headers :: "(string \<rightharpoonup> string) option"
  sends :: nat
  inits :: nat

text \<open>The choice of the API URL in \<open>_initialize_client\<close> (lines 52 to 58).\<close>

definition url_entry :: "string \<Rightarrow> string setting \<Rightarrow> exn + string option" where
  "url_entry k v = (case v of Absent \<Rightarrow> Inl (KeyError k) | Null \<Rightarrow> Inr None | Given u \<Rightarrow> Inr (Some u))"

definition api_url :: "config \<Rightarrow> exn + string option" where
  "api_url cfg =
     (case api_cfg cfg of
        None \<Rightarrow> Inl TypeError
      | Some api \<Rightarrow>
          (case production_deployment api of
             Absent \<Rightarrow> Inl (KeyError ''production_deployment'')
           | Null \<Rightarrow> url_entry ''dev_url'' (dev_url api)
           | Given p \<Rightarrow> (if p then url_entry ''prod_url'' (prod_url api)
                         else url_entry ''dev_url'' (dev_url api))))"

text \<open>\<open>GraphqlClient._initialize_client\<close> (lines 44 to 62).\<close>

definition initialize_client :: "env \<Rightarrow> gql_client \<Rightarrow> (exn + unit) \<times> gql_client" where
  "initialize_client e c =
     (case get_auth_header e (auth c) of
        (Inl x, a) \<Rightarrow> (Inl x, c\<lparr>auth := a, inits := Suc (inits c)\<rparr>)
      | (Inr header, a) \<Rightarrow>
          (case schema_load e of
             Some x \<Rightarrow> (Inl x, c\<lparr>auth := a, inits := Suc (inits c)\<rparr>)
           | None \<Rightarrow>
               (case api_url (client_config c) of
                  Inl x \<Rightarrow> (Inl x, c\<lparr>auth := a, inits := Suc (inits c)\<rparr>)
                | Inr u \<Rightarrow>
                    (Inr (), c\<lparr>auth := a, inits := Suc (inits c),
                               transport_url := u, transport_headers := header\<rparr>))))"

text \<open>\<open>GraphqlClient.__init__\<close> (lines 27 to 35).\<close>

definition GraphqlClient_init :: "env \<Rightarrow> config \<Rightarrow> exn + gql_client" where
  "GraphqlClient_init e cfg =
     (case fst (AuthService_init e cfg) of
        Inl x \<Rightarrow> Inl x
      | Inr a \<Rightarrow>
          (case initialize_client e
                  \<lparr>reauthenticated = False, client_config = cfg, auth = a,
                   transport_url = None, transport_headers = None, sends = 0, inits = 0\<rparr> of
             (Inl x, c) \<Rightarrow> Inl x
           | (Inr u, c) \<Rightarrow> Inr c))"

text \<open>
  \<open>GraphqlClient.query\<close> (lines 107 to 146). Every path leaves through the
  \<open>finally\<close> clause, which resets the flag. In the handler of
  \<open>TransportProtocolError\<close> the value of the recursive call is not returned: when that
  call returns, control falls through to \<open>return {}\<close> at the end of the method; when it
  raises, or \<open>_initialize_client\<close> raises, the exception leaves the handler.
\<close>

function query :: "env \<Rightarrow> gql_client \<Rightarrow> (exn + response) \<times> gql_client" where
  "query e c =
     (case transport e (sends c) of
        Returned r \<Rightarrow> (Inr r, c\<lparr>sends := Suc (sends c), reauthenticated := False\<rparr>)
      | Raised x \<Rightarrow>
          (case x of
             GraphQLError \<Rightarrow> (Inl x, c\<lparr>sends := Suc (sends c), reauthenticated := False\<rparr>)
           | TransportProtocolError \<Rightarrow>
               (if reauthenticated c
                then (Inl x, c\<lparr>sends := Suc (sends c), reauthenticated := False\<rparr>)
                else (case initialize_client e (c\<lparr>sends := Suc (sends c)\<rparr>) of
                        (Inl y, c2) \<Rightarrow> (Inl y, c2\<lparr>reauthenticated := False\<rparr>)
                      | (Inr u, c2) \<Rightarrow>
                          (case query e (c2\<lparr>reauthenticated := True\<rparr>) of
                             (Inl y, c3) \<Rightarrow> (Inl y, c3\<lparr>reauthenticated := False\<rparr>)
                           | (Inr r, c3) \<Rightarrow> (Inr Map.empty, c3\<lparr>reauthenticated := False\<rparr>))))
           | TransportQueryError \<Rightarrow> (Inl x, c\<lparr>sends := Suc (sends c), reauthenticated := False\<rparr>)
           | TransportClosed \<Rightarrow> (Inl x, c\<lparr>sends := Suc (sends c), reauthenticated := False\<rparr>)
           | TransportServerError \<Rightarrow> (Inl x, c\<lparr>sends := Suc (sends c), reauthenticated := False\<rparr>)
           | _ \<Rightarrow> (Inl x, c\<lparr>sends := Suc (sends c), reauthenticated := False\<rparr>)))"
  by pat_completeness auto
termination
  by (relation "measure (\<lambda>(e, c). if reauthenticated c then 0 else 1)") auto

declare query.simps [simp del]

text \<open>
  \<open>GraphqlClient.query_async\<close> (lines 65 to 105): the same handlers around
  \<open>client.execute_async\<close>. Its retry calls the synchronous \<open>query\<close> and awaits the
  value: when that call returns, awaiting the dictionary raises \<open>TypeError\<close> inside the
  handler; when it raises, the exception leaves the handler.
\<close>

definition query_async :: "env \<Rightarrow> gql_client \<Rightarrow> (exn + response) \<times> gql_client" where
  "query_async e c =
     (case transport e (sends c) of
        Returned r \<Rightarrow> (Inr r, c\<lparr>sends := Suc (sends c), reauthenticated := False\<rparr>)
      | Raised x \<Rightarrow>
          (case x of
             GraphQLError \<Rightarrow> (Inl x, c\<lparr>sends := Suc (sends c), reauthenticated := False\<rparr>)
           | TransportProtocolError \<Rightarrow>
               (if reauthenticated c
                then (Inl x, c\<lparr>sends := Suc (sends c), reauthenticated := False\<rparr>)
                else (case initialize_client e (c\<lparr>sends := Suc (sends c)\<rparr>) of
                        (Inl y, c2) \<Rightarrow> (Inl y, c2\<lparr>reauthenticated := False\<rparr>)
                      | (Inr u, c2) \<Rightarrow>
                          (case query e (c2\<lparr>reauthenticated := True\<rparr>) of
                             (Inl y, c3) \<Rightarrow> (Inl y, c3\<lparr>reauthenticated := False\<rparr>)
                           | (Inr r, c3) \<Rightarrow> (Inl TypeError, c3\<lparr>reauthenticated := False\<rparr>))))
           | TransportQueryError \<Rightarrow> (Inl x, c\<lparr>sends := Suc (sends c), reauthenticated := False\<rparr>)
           | TransportClosed \<Rightarrow> (Inl x, c\<lparr>sends := Suc (sends c), reauthenticated := False\<rparr>)
           | TransportServerError \<Rightarrow> (Inl x, c\<lparr>sends := Suc (sends c), reauthenticated := False\<rparr>)
           | _ \<Rightarrow> (Inl x, c\<lparr>sends := Suc (sends c), reauthenticated := False\<rparr>)))"

section \<open>Concrete scenarios\<close>

text \<open>
  An environment whose key file holds \<open>secret\<close>, with the token endpoint and the
  transport given; a service as the constructor leaves it; and the same service after a
  first successful authentication that cached the token \<open>old\<close>.
\<close>

definition scenario_env :: "(nat \<Rightarrow> http_outcome) \<Rightarrow> (nat \<Rightarrow> exec_outcome) \<Rightarrow> env" where
  "scenario_env http exec =
     \<lparr>files = [''api_key.txt'' \<mapsto> ''secret''], docker_secret = (\<lambda>f. None),
      token_endpoint = http, schema_load = None, transport = exec,
      add_job_fault = (\<lambda>n. None), shutdown_event = Completes\<rparr>"

definition no_sends :: "nat \<Rightarrow> exec_outcome" where
  "no_sends n = Raised TransportClosed"

definition fresh_service :: auth_service where
  "fresh_service =
     \<lparr>svc_endpoint = ''https://login.example/api/loginApi'',
      login_credentials = ''b3BzQGV4YW1wbGUuY29tOnNlY3JldA=='',
      svc_refresh_interval = 300, timeout = 5, access_token = None, auth_scheduler = None,
      posts = [], schedulers_started = 0\<rparr>"

definition cached_service :: auth_service where
  "cached_service =
     fresh_service\<lparr>access_token := Some ''old'',
       auth_scheduler := Some \<lparr>running = True, jobs = [\<lparr>seconds = 300, max_instances = 1\<rparr>]\<rparr>,
       posts := [\<lparr>url = ''https://login.example/api/loginApi'', json_arg = Map.empty,
                 headers_arg = [''Content-Type'' \<mapsto> ''application/json'',
                    ''authorization'' \<mapsto> ''Basic b3BzQGV4YW1wbGUuY29tOnNlY3JldA==''],
                 timeout_arg = 5\<rparr>],
       schedulers_started := 1\<rparr>"

definition scenario_config :: "string \<Rightarrow> int setting \<Rightarrow> config" where
  "scenario_config ep interval =
     \<lparr>auth_service_cfg = Some \<lparr>endpoint = Given ep, user_email = Given ''ops@example.com'',
         user_api_key_file = Given ''api_key.txt'', user_api_key = Absent,
         refresh_interval = interval\<rparr>,
      api_cfg = Some \<lparr>production_deployment = Given False,
         prod_url = Given ''https://api.example/graphql'',
         dev_url = Given ''https://dev.example/graphql''\<rparr>\<rparr>"

definition always :: "'a \<Rightarrow> nat \<Rightarrow> 'a" where
  "always x n = x"



definition protocol_error_then :: "exec_outcome \<Rightarrow> nat \<Rightarrow> exec_outcome" where
  "protocol_error_then r n = (if n = 0 then Raised TransportProtocolError else r)"

text \<open>
  The client that \<open>GraphqlClient.__init__\<close> builds from \<open>scenario_config\<close> when the
  token endpoint answers with the token \<open>old\<close>.
\<close>

definition scenario_client :: gql_client where
  "scenario_client =
     \<lparr>reauthenticated = False,
      client_config = scenario_config ''https://login.example/api/loginApi'' (Given 300),
      auth = cached_service,
      transport_url = Some ''https://dev.example/graphql'',
      transport_headers = Some [''authorization'' \<mapsto> ''Bearer old''],
      sends = 0, inits = 1\<rparr>"

section \<open>The scheduler invariant\<close>



section \<open>The token fetch\<close>

text \<open>Every fetch appends one POST to the log and leaves the other attributes alone.\<close>

lemma handle_access_token_posts:
  "posts (snd (handle_access_token e s creds tmo)) =
     posts s @ [\<lparr>url = svc_endpoint s, json_arg = Map.empty,
                 headers_arg = [''Content-Type'' \<mapsto> ''application/json'',
                                ''authorization'' \<mapsto> ''Basic '' @ creds],
                 timeout_arg = tmo\<rparr>]"
  by (simp add: handle_access_token_def Let_def split: http_outcome.splits body.splits option.splits)

lemma handle_access_token_fields:
  "svc_endpoint (snd (handle_access_token e s creds tmo)) = svc_endpoint s"
  "login_credentials (snd (handle_access_token e s creds tmo)) = login_credentials s"
  "svc_refresh_interval (snd (handle_access_token e s creds tmo)) = svc_refresh_interval s"
  "timeout (snd (handle_access_token e s creds tmo)) = timeout s"
  "auth_scheduler (snd (handle_access_token e s creds tmo)) = auth_scheduler s"
  "schedulers_started (snd (handle_access_token e s creds tmo)) = schedulers_started s"
  by (simp_all add: handle_access_token_def Let_def split: http_outcome.splits body.splits option.splits)

lemma fetch_failure_clears:
  assumes "token_endpoint e (length (posts s)) = r"
    and "r = Timeout \<or> r = RequestException \<or> (\<exists>st b. r = Response st b \<and> (st < 200 \<or> 300 \<le> st))"
  shows "handle_access_token e s creds tmo =
           (Inr (), s\<lparr>posts := posts s @ [\<lparr>url = svc_endpoint s, json_arg = Map.empty,
                 headers_arg = [''Content-Type'' \<mapsto> ''application/json'',
                                ''authorization'' \<mapsto> ''Basic '' @ creds],
                 timeout_arg = tmo\<rparr>], access_token := None\<rparr>)"
  using assms by (auto simp add: handle_access_token_def Let_def)

lemma fetch_success_sets:
  assumes "token_endpoint e (length (posts s)) = Response st (Object d)"
    and "200 \<le> st" "st < 300" "d ''access_token'' = Some t"
  shows "handle_access_token e s creds tmo =
           (Inr (), s\<lparr>posts := posts s @ [\<lparr>url = svc_endpoint s, json_arg = Map.empty,
                 headers_arg = [''Content-Type'' \<mapsto> ''application/json'',
                                ''authorization'' \<mapsto> ''Basic '' @ creds],
                 timeout_arg = tmo\<rparr>], access_token := Some t\<rparr>)"
  using assms by (simp add: handle_access_token_def Let_def)

text \<open>
  A body that is not JSON at all is a caught failure: the token is cleared and nothing is
  raised.
\<close>

lemma malformed_json_clears:
  assumes "token_endpoint e (length (posts s)) = Response st Malformed"
  shows "fst (handle_access_token e s creds tmo) = Inr () \<and>
         access_token (snd (handle_access_token e s creds tmo)) = None"
  using assms by (simp add: handle_access_token_def Let_def)

lemma authenticate_posts:
  "posts (snd (authenticate e s)) =
     posts s @ [\<lparr>url = svc_endpoint s, json_arg = Map.empty,
                 headers_arg = [''Content-Type'' \<mapsto> ''application/json'',
                                ''authorization'' \<mapsto> ''Basic '' @ login_credentials s],
                 timeout_arg = timeout s\<rparr>]"
proof (cases "handle_access_token e s (login_credentials s) (timeout s)")
  case (Pair r s1)
  have p: "posts s1 = posts s @ [\<lparr>url = svc_endpoint s, json_arg = Map.empty,
                 headers_arg = [''Content-Type'' \<mapsto> ''application/json'',
                                ''authorization'' \<mapsto> ''Basic '' @ login_credentials s],
                 timeout_arg = timeout s\<rparr>]"
    using handle_access_token_posts [of e s "login_credentials s" "timeout s"] Pair by simp
  show ?thesis
    using Pair p by (simp add: authenticate_def split: sum.splits option.splits)
qed

lemma authenticate_fields:
  "svc_endpoint (snd (authenticate e s)) = svc_endpoint s"
  "login_credentials (snd (authenticate e s)) = login_credentials s"
  "svc_refresh_interval (snd (authenticate e s)) = svc_refresh_interval s"
  "timeout (snd (authenticate e s)) = timeout s"
proof -
  obtain r s1 where h: "handle_access_token e s (login_credentials s) (timeout s) = (r, s1)"
    by (cases "handle_access_token e s (login_credentials s) (timeout s)")
  have f: "svc_endpoint s1 = svc_endpoint s" "login_credentials s1 = login_credentials s"
     "svc_refresh_interval s1 = svc_refresh_interval s" "timeout s1 = timeout s"
    using handle_access_token_fields [of e s "login_credentials s" "timeout s"] h by simp_all
  show "svc_endpoint (snd (authenticate e s)) = svc_endpoint s"
    "login_credentials (snd (authenticate e s)) = login_credentials s"
    "svc_refresh_interval (snd (authenticate e s)) = svc_refresh_interval s"
    "timeout (snd (authenticate e s)) = timeout s"
    using h f by (simp_all add: authenticate_def split: sum.splits option.splits)
qed

lemma authenticate_token:
  "access_token (snd (authenticate e s)) =
     access_token (snd (handle_access_token e s (login_credentials s) (timeout s)))"
  by (cases "handle_access_token e s (login_credentials s) (timeout s)")
     (simp add: authenticate_def split: sum.splits option.splits)

lemma authenticate_outcome:
  "fst (authenticate e s) =
     (case fst (handle_access_token e s (login_credentials s) (timeout s)) of
        Inl x \<Rightarrow> Inl x
      | Inr u \<Rightarrow>
          (case auth_scheduler s of
             None \<Rightarrow> (case add_job_fault e (svc_refresh_interval s) of
                        Some x \<Rightarrow> Inl x | None \<Rightarrow> Inr ())
           | Some sch \<Rightarrow> Inr ()))"
proof -
  obtain r s1 where h: "handle_access_token e s (login_credentials s) (timeout s) = (r, s1)"
    by (cases "handle_access_token e s (login_credentials s) (timeout s)")
  have f: "auth_scheduler s1 = auth_scheduler s" "svc_refresh_interval s1 = svc_refresh_interval s"
    using handle_access_token_fields [of e s "login_credentials s" "timeout s"] h by simp_all
  show ?thesis
    using h f by (simp add: authenticate_def split: sum.splits option.splits)
qed

lemma get_bearer_token_token:
  assumes "not_token (access_token s) \<or> auth_scheduler s = None"
  shows "access_token (snd (get_bearer_token e s)) =
           access_token (snd (handle_access_token e s (login_credentials s) (timeout s)))"
proof -
  obtain r s1 where a: "authenticate e s = (r, s1)" by (cases "authenticate e s")
  have "snd (get_bearer_token e s) = s1"
    using assms a by (auto simp add: get_bearer_token_def split: sum.splits option.splits)
  then show ?thesis using a authenticate_token [of e s] by simp
qed

lemma get_bearer_token_fetching:
  assumes "not_token (access_token s) \<or> auth_scheduler s = None"
    and "fst (handle_access_token e s (login_credentials s) (timeout s)) = Inr ()"
    and "auth_scheduler s \<noteq> None \<or> add_job_fault e (svc_refresh_interval s) = None"
  shows "fst (get_bearer_token e s) =
           Inr (case access_token (snd (handle_access_token e s (login_credentials s) (timeout s))) of
                  None \<Rightarrow> None | Some t \<Rightarrow> if t = [] then None else Some (''Bearer '' @ t))"
proof -
  obtain r s1 where a: "authenticate e s = (r, s1)" by (cases "authenticate e s")
  have r: "r = Inr ()"
    using a assms(2,3) authenticate_outcome [of e s] by (auto split: option.splits)
  have t: "access_token s1 = access_token (snd (handle_access_token e s (login_credentials s) (timeout s)))"
    using a authenticate_token [of e s] by simp
  show ?thesis
    using assms(1) a r t by (auto simp add: get_bearer_token_def split: option.splits)
qed

lemma get_bearer_token_result:
  assumes "get_bearer_token e s = (Inr b, s')"
  shows "b = (case access_token s' of None \<Rightarrow> None
              | Some t \<Rightarrow> if t = [] then None else Some (''Bearer '' @ t))"
  using assms
  by (cases "authenticate e s")
     (auto simp add: get_bearer_token_def split: sum.splits option.splits if_splits)

lemma get_bearer_token_state:
  "snd (get_bearer_token e s) =
     (if not_token (access_token s) \<or> auth_scheduler s = None then snd (authenticate e s) else s)"
  by (cases "authenticate e s")
     (auto simp add: get_bearer_token_def split: sum.splits option.splits)

lemma get_auth_header_state: "snd (get_auth_header e s) = snd (get_bearer_token e s)"
  by (cases "get_bearer_token e s")
     (auto simp add: get_auth_header_def split: sum.splits option.splits)

text \<open>
  C3. A fetch answered with status 200 and the JSON object \<open>{}\<close>, which has no
  \<open>access_token\<close>: the subscript raises \<open>KeyError\<close>, which no handler of
  \<open>_handle_access_token\<close> catches. The token cached before (\<open>old\<close>) stays cached after
  the scheduler's tick, and \<open>get_bearer_token\<close> on a fresh service raises the
  \<open>KeyError\<close> to its caller instead of returning no header.
\<close>

theorem missing_access_token_field_raises:
  "handle_access_token (scenario_env (\<lambda>n. Response 200 (Object Map.empty)) no_sends)
      cached_service (login_credentials cached_service) (timeout cached_service)
     = (Inl (KeyError ''access_token''),
        cached_service\<lparr>posts := posts cached_service @
           [\<lparr>url = ''https://login.example/api/loginApi'', json_arg = Map.empty,
             headers_arg = [''Content-Type'' \<mapsto> ''application/json'',
                ''authorization'' \<mapsto> ''Basic b3BzQGV4YW1wbGUuY29tOnNlY3JldA==''],
             timeout_arg = 5\<rparr>]\<rparr>) \<and>
   access_token (tick (scenario_env (\<lambda>n. Response 200 (Object Map.empty)) no_sends) cached_service)
     = Some ''old'' \<and>
   fst (get_bearer_token (scenario_env (\<lambda>n. Response 200 (Object Map.empty)) no_sends) fresh_service)
     = Inl (KeyError ''access_token'')"
  by (simp add: handle_access_token_def authenticate_def get_bearer_token_def
        scenario_env_def cached_service_def fresh_service_def Let_def)

text \<open>
  C4. A fetch that times out, fails in transport or is answered with a status outside
  200 to 299 raises nothing and clears the cached token. A \<open>get_bearer_token\<close> whose
  own fetch fails so leaves no token cached and returns no header. After the failed
  fetch, a \<open>get_bearer_token\<close> whose fetch is answered with a 2xx status and a
  non-empty \<open>access_token\<close> caches that token and returns \<open>Bearer\<close> followed by it.
  The two returns are those of a call in which \<open>add_job\<close> does not raise (there is a
  scheduler already, or the environment lets \<open>add_job\<close> pass); the state of the token
  is the same when it does.
\<close>

theorem failed_fetch_clears_token:
  assumes "token_endpoint e (length (posts s)) = r"
    and "r = Timeout \<or> r = RequestException \<or> (\<exists>st b. r = Response st b \<and> (st < 200 \<or> 300 \<le> st))"
  shows "fst (handle_access_token e s (login_credentials s) (timeout s)) = Inr () \<and>
         access_token (snd (handle_access_token e s (login_credentials s) (timeout s))) = None \<and>
         (not_token (access_token s) \<or> auth_scheduler s = None \<longrightarrow>
            access_token (snd (get_bearer_token e s)) = None \<and>
            (auth_scheduler s \<noteq> None \<or> add_job_fault e (svc_refresh_interval s) = None \<longrightarrow>
               fst (get_bearer_token e s) = Inr None)) \<and>
         (\<forall>st2 d t. token_endpoint e (Suc (length (posts s))) = Response st2 (Object d) \<and>
              200 \<le> st2 \<and> st2 < 300 \<and> d ''access_token'' = Some t \<and> t \<noteq> [] \<longrightarrow>
            access_token (snd (get_bearer_token e
                 (snd (handle_access_token e s (login_credentials s) (timeout s))))) = Some t \<and>
            (auth_scheduler s \<noteq> None \<or> add_job_fault e (svc_refresh_interval s) = None \<longrightarrow>
               fst (get_bearer_token e (snd (handle_access_token e s (login_credentials s) (timeout s))))
                 = Inr (Some (''Bearer '' @ t))))"
proof -
  let ?h = "handle_access_token e s (login_credentials s) (timeout s)"
  let ?s1 = "snd ?h"
  let ?ok = "auth_scheduler s \<noteq> None \<or> add_job_fault e (svc_refresh_interval s) = None"
  have h: "fst ?h = Inr ()" "access_token ?s1 = None"
    using fetch_failure_clears [OF assms, of "login_credentials s" "timeout s"] by simp_all
  have g1: "not_token (access_token s) \<or> auth_scheduler s = None \<Longrightarrow>
            access_token (snd (get_bearer_token e s)) = None"
    using get_bearer_token_token [of s e] h by simp
  have g2: "not_token (access_token s) \<or> auth_scheduler s = None \<Longrightarrow> ?ok \<Longrightarrow>
            fst (get_bearer_token e s) = Inr None"
    using get_bearer_token_fetching [of s e] h by simp
  have n: "access_token (snd (get_bearer_token e ?s1)) = Some t \<and>
            (?ok \<longrightarrow> fst (get_bearer_token e ?s1) = Inr (Some (''Bearer '' @ t)))"
    if a: "token_endpoint e (Suc (length (posts s))) = Response st2 (Object d)"
      "200 \<le> st2" "st2 < 300" "d ''access_token'' = Some t" "t \<noteq> []"
    for st2 d t
  proof -
    have len: "length (posts ?s1) = Suc (length (posts s))"
      using handle_access_token_posts [of e s "login_credentials s" "timeout s"] by simp
    have ok: "handle_access_token e ?s1 (login_credentials ?s1) (timeout ?s1) =
           (Inr (), ?s1\<lparr>posts := posts ?s1 @ [\<lparr>url = svc_endpoint ?s1, json_arg = Map.empty,
                 headers_arg = [''Content-Type'' \<mapsto> ''application/json'',
                                ''authorization'' \<mapsto> ''Basic '' @ login_credentials ?s1],
                 timeout_arg = timeout ?s1\<rparr>], access_token := Some t\<rparr>)"
      using a len by (intro fetch_success_sets [of e ?s1 st2 d t]) simp_all
    have nt: "not_token (access_token ?s1) \<or> auth_scheduler ?s1 = None" using h by simp
    have same: "auth_scheduler ?s1 = auth_scheduler s" "svc_refresh_interval ?s1 = svc_refresh_interval s"
      by (simp_all add: handle_access_token_fields)
    have tok: "access_token (snd (get_bearer_token e ?s1)) = Some t"
      using get_bearer_token_token [OF nt, of e] ok by simp
    have ret: "fst (get_bearer_token e ?s1) = Inr (Some (''Bearer '' @ t))" if ?ok
      using get_bearer_token_fetching [OF nt, of e] ok a(5) same that by simp
    show ?thesis using tok ret by blast
  qed
  show ?thesis using h g1 g2 n by blast
qed

theorem failed_fetch_clears_token_witness:
  "fst (handle_access_token (scenario_env (\<lambda>n. if n = 1 then Response 401 Malformed
            else Response 200 (Object [''access_token'' \<mapsto> ''abc123''])) no_sends)
          cached_service (login_credentials cached_service) (timeout cached_service)) = Inr () \<and>
   access_token (snd (handle_access_token (scenario_env (\<lambda>n. if n = 1 then Response 401 Malformed
            else Response 200 (Object [''access_token'' \<mapsto> ''abc123''])) no_sends)
          cached_service (login_credentials cached_service) (timeout cached_service))) = None \<and>
   fst (get_bearer_token (scenario_env (\<lambda>n. if n = 1 then Response 401 Malformed
            else Response 200 (Object [''access_token'' \<mapsto> ''abc123''])) no_sends)
          (snd (handle_access_token (scenario_env (\<lambda>n. if n = 1 then Response 401 Malformed
            else Response 200 (Object [''access_token'' \<mapsto> ''abc123''])) no_sends)
          cached_service (login_credentials cached_service) (timeout cached_service))))
     = Inr (Some ''Bearer abc123'')"
  using failed_fetch_clears_token [of "scenario_env (\<lambda>n. if n = 1 then Response 401 Malformed
            else Response 200 (Object [''access_token'' \<mapsto> ''abc123''])) no_sends"
          cached_service "Response 401 Malformed"]
  by (simp add: scenario_env_def cached_service_def fresh_service_def)

text \<open>
  C6. On a service with no cached token and no scheduler, \<open>get_bearer_token\<close> (and
  \<open>get_auth_header\<close>, which calls it) issues exactly one POST before it returns or
  raises: the log of requests grows by that one request.
\<close>

theorem first_bearer_request_fetches_once:
  assumes "not_token (access_token s)" and "auth_scheduler s = None"
  shows "posts (snd (get_bearer_token e s)) =
           posts s @ [\<lparr>url = svc_endpoint s, json_arg = Map.empty,
                 headers_arg = [''Content-Type'' \<mapsto> ''application/json'',
                                ''authorization'' \<mapsto> ''Basic '' @ login_credentials s],
                 timeout_arg = timeout s\<rparr>] \<and>
         length (posts (snd (get_bearer_token e s))) = Suc (length (posts s)) \<and>
         length (posts (snd (get_auth_header e s))) = Suc (length (posts s))"
  using assms authenticate_posts [of e s]
  by (simp add: get_auth_header_state get_bearer_token_state)

theorem first_bearer_request_fetches_once_witness:
  "not_token (access_token fresh_service) \<and> auth_scheduler fresh_service = None \<and>
   posts (snd (get_bearer_token (scenario_env (\<lambda>n. Response 200 (Object [''access_token'' \<mapsto> ''abc123''])) no_sends) fresh_service)) =
     [\<lparr>url = ''https://login.example/api/loginApi'', json_arg = Map.empty,
                 headers_arg = [''Content-Type'' \<mapsto> ''application/json'',
                    ''authorization'' \<mapsto> ''Basic b3BzQGV4YW1wbGUuY29tOnNlY3JldA==''],
                 timeout_arg = 5\<rparr>]"
  using first_bearer_request_fetches_once [of fresh_service
     "scenario_env (\<lambda>n. Response 200 (Object [''access_token'' \<mapsto> ''abc123''])) no_sends"]
  by (simp add: fresh_service_def)

section \<open>The authorization header\<close>

text \<open>
  C10. Whenever \<open>get_auth_header\<close> returns, it returns \<open>None\<close> exactly when the
  token cached after the call is absent or empty, and otherwise the dictionary with the
  single key \<open>authorization\<close> (lower case) whose value is \<open>Bearer\<close>, a space and the
  cached token.
\<close>

theorem get_auth_header_shape:
  assumes "get_auth_header e s = (Inr h, s')"
  shows "(h = None \<longleftrightarrow> not_token (access_token s')) \<and>
         (\<forall>t. access_token s' = Some t \<and> t \<noteq> [] \<longrightarrow>
              h = Some [''authorization'' \<mapsto> ''Bearer '' @ t])"
proof -
  obtain r s1 where g: "get_bearer_token e s = (r, s1)" by (cases "get_bearer_token e s")
  from assms g obtain b where r: "r = Inr b" and s1: "s1 = s'"
    by (cases r) (auto simp add: get_auth_header_def split: if_splits option.splits)
  have b: "b = (case access_token s' of None \<Rightarrow> None
              | Some t \<Rightarrow> if t = [] then None else Some (''Bearer '' @ t))"
    using get_bearer_token_result [of e s b s'] g r s1 by simp
  show ?thesis
    using assms g r s1 b
    by (cases "access_token s'") (auto simp add: get_auth_header_def split: if_splits)
qed

theorem get_auth_header_shape_witness:
  "get_auth_header (scenario_env (always Timeout) no_sends) cached_service
     = (Inr (Some [''authorization'' \<mapsto> ''Bearer old'']), cached_service) \<and>
   get_auth_header (scenario_env (always Timeout) no_sends) fresh_service
     = (Inr None, snd (authenticate (scenario_env (always Timeout) no_sends) fresh_service)) \<and>
   not_token (access_token (snd (authenticate (scenario_env (always Timeout) no_sends) fresh_service)))"
proof -
  have a: "get_auth_header (scenario_env (always Timeout) no_sends) cached_service
     = (Inr (Some [''authorization'' \<mapsto> ''Bearer old'']), cached_service)"
    by (simp add: get_auth_header_def get_bearer_token_def cached_service_def fresh_service_def)
  have b: "get_auth_header (scenario_env (always Timeout) no_sends) fresh_service
     = (Inr None, snd (authenticate (scenario_env (always Timeout) no_sends) fresh_service))"
    by (simp add: get_auth_header_def get_bearer_token_def authenticate_def
          handle_access_token_def fresh_service_def scenario_env_def always_def Let_def)
  show ?thesis
    using get_auth_header_shape [OF a] get_auth_header_shape [OF b] a b
    by (simp add: cached_service_def)
qed

section \<open>Construction\<close>

text \<open>What a successful construction was given, and the object it leaves.\<close>

lemma AuthService_init_Inr:
  assumes "fst (AuthService_init e cfg) = Inr s0"
  shows "\<exists>sec ep em f content n.
           auth_service_cfg cfg = Some sec \<and> endpoint sec = Given ep \<and> ep \<noteq> [] \<and>
           user_email sec = Given em \<and> em \<noteq> [] \<and>
           user_api_key_file sec = Given f \<and> files e f = Some content \<and> strip content \<noteq> [] \<and>
           (refresh_interval sec = Given n \<or> refresh_interval sec = Absent \<and> n = 300) \<and> n \<noteq> 0 \<and>
           s0 = \<lparr>svc_endpoint = ep, login_credentials = b64encode (em @ '':'' @ strip content),
                 svc_refresh_interval = n, timeout = 5, access_token = None,
                 auth_scheduler = None, posts = [], schedulers_started = 0\<rparr>"
proof -
  from assms obtain sec where sec: "auth_service_cfg cfg = Some sec"
    by (cases "auth_service_cfg cfg") (auto simp add: AuthService_init_def)
  from assms sec obtain ep where ep: "endpoint sec = Given ep" "ep \<noteq> []"
    by (cases "endpoint sec")
       (auto simp add: AuthService_init_def init_checks_def Let_def split: setting.splits sum.splits if_splits)
  from assms sec obtain em where em: "user_email sec = Given em" "em \<noteq> []"
    by (cases "user_email sec")
       (auto simp add: AuthService_init_def init_checks_def Let_def split: setting.splits sum.splits if_splits)
  from assms sec ep em obtain f content where f: "user_api_key_file sec = Given f" "files e f = Some content" "strip content \<noteq> []"
    by (cases "user_api_key_file sec"; cases "files e (case user_api_key_file sec of Given f \<Rightarrow> f | _ \<Rightarrow> [])")
       (auto simp add: AuthService_init_def init_checks_def read_api_key_def Let_def split: setting.splits sum.splits if_splits option.splits)
  from assms sec ep em f obtain n where n: "refresh_interval sec = Given n \<or> refresh_interval sec = Absent \<and> n = 300" "n \<noteq> 0"
    by (cases "refresh_interval sec")
       (auto simp add: AuthService_init_def init_checks_def read_api_key_def Let_def split: if_splits)
  have "s0 = \<lparr>svc_endpoint = ep, login_credentials = b64encode (em @ '':'' @ strip content),
                 svc_refresh_interval = n, timeout = 5, access_token = None,
                 auth_scheduler = None, posts = [], schedulers_started = 0\<rparr>"
    using assms sec ep em f n
    by (auto simp add: AuthService_init_def init_checks_def read_api_key_def Let_def)
  then show ?thesis using sec ep em f n by blast
qed

lemma AuthService_init_no_requests: "snd (AuthService_init e cfg) = []"
  by (simp add: AuthService_init_def Let_def split: option.splits setting.splits sum.splits)

lemma strip_secret: "strip ''secret'' = ''secret''"
  by (simp add: strip_def is_space_def)

lemma b64_scenario: "b64encode ''ops@example.com:secret'' = ''b3BzQGV4YW1wbGUuY29tOnNlY3JldA==''"
  by (simp add: b64encode_def b64_char_def b64_alphabet_def)

lemma scenario_init:
  "n \<noteq> 0 \<Longrightarrow> AuthService_init (scenario_env h x) (scenario_config ''https://login.example/api/loginApi'' (Given n))
     = (Inr (fresh_service\<lparr>svc_refresh_interval := n\<rparr>), [])"
  using b64_scenario
  by (simp add: AuthService_init_def read_api_key_def init_checks_def scenario_env_def
        scenario_config_def fresh_service_def strip_secret)

text \<open>
  C5, as stated, fails on the code: with every other setting valid, the refresh interval
  \<open>-5\<close> is accepted, since the constructor tests \<open>not refresh_interval\<close>, which holds
  for \<open>None\<close> and \<open>0\<close> only. The timeout is no setting at all: the constructor
  stores the constant 5.
\<close>

theorem negative_refresh_interval_accepted:
  "fst (AuthService_init (scenario_env (always Timeout) no_sends)
          (scenario_config ''https://login.example/api/loginApi'' (Given (- 5))))
     = Inr (fresh_service\<lparr>svc_refresh_interval := - 5\<rparr>)"
  using b64_scenario
  by (simp add: AuthService_init_def read_api_key_def init_checks_def scenario_env_def
        scenario_config_def fresh_service_def strip_secret)

text \<open>
  C5, amended. When the endpoint is missing, \<open>None\<close> or empty, or the user email is,
  or there is no API key (no key file named, the file unreadable, or its stripped content
  empty), or the refresh interval is \<open>0\<close> or \<open>None\<close>, construction raises and issues
  no network request; the exception is a \<open>ValueError\<close> when the entries
  \<open>endpoint\<close> and \<open>user_email\<close> exist and the key file is \<open>None\<close> or readable.
\<close>

theorem construction_rejects_missing_settings:
  assumes "auth_service_cfg cfg = Some sec"
    and "not_str (endpoint sec) \<or> not_str (user_email sec) \<or>
         (case user_api_key_file sec of
            Given f \<Rightarrow> (case files e f of None \<Rightarrow> True | Some content \<Rightarrow> strip content = [])
          | _ \<Rightarrow> True) \<or>
         refresh_interval sec = Given 0 \<or> refresh_interval sec = Null"
  shows "isl (fst (AuthService_init e cfg)) \<and> snd (AuthService_init e cfg) = [] \<and>
         (endpoint sec \<noteq> Absent \<and> user_email sec \<noteq> Absent \<and>
          (\<exists>f content. user_api_key_file sec = Null \<or>
               user_api_key_file sec = Given f \<and> files e f = Some content) \<longrightarrow>
            (\<exists>m. fst (AuthService_init e cfg) = Inl (ValueError m)))"
proof -
  have fails: "isl (fst (AuthService_init e cfg))"
  proof (rule ccontr)
    assume "\<not> isl (fst (AuthService_init e cfg))"
    then obtain s0 where "fst (AuthService_init e cfg) = Inr s0"
      by (cases "fst (AuthService_init e cfg)") simp_all
    from AuthService_init_Inr [OF this] assms show False by auto
  qed
  have none: "snd (AuthService_init e cfg) = []" by (rule AuthService_init_no_requests)
  have kind: "\<exists>m. fst (AuthService_init e cfg) = Inl (ValueError m)"
    if p: "endpoint sec \<noteq> Absent" "user_email sec \<noteq> Absent"
      "\<exists>f content. user_api_key_file sec = Null \<or>
               user_api_key_file sec = Given f \<and> files e f = Some content"
  proof -
    from fails obtain x where x: "fst (AuthService_init e cfg) = Inl x"
      by (cases "fst (AuthService_init e cfg)") simp_all
    from p(3) consider "user_api_key_file sec = Null"
      | f content where "user_api_key_file sec = Given f" "files e f = Some content" by blast
    then show ?thesis
    proof cases
      case 1
      then show ?thesis using assms(1) p(1,2)
        by (cases "endpoint sec"; cases "user_email sec")
           (simp_all add: AuthService_init_def read_api_key_def init_checks_def Let_def)
    next
      case 2
      then show ?thesis using assms(1) p(1,2) x
        by (cases "endpoint sec"; cases "user_email sec")
           (auto simp add: AuthService_init_def read_api_key_def init_checks_def Let_def
              split: if_splits setting.splits)
    qed
  qed
  show ?thesis using fails none kind by blast
qed

theorem construction_rejects_missing_settings_witness:
  "isl (fst (AuthService_init (scenario_env (always Timeout) no_sends)
          (scenario_config [] (Given 300)))) \<and>
   snd (AuthService_init (scenario_env (always Timeout) no_sends)
          (scenario_config [] (Given 300))) = [] \<and>
   fst (AuthService_init (scenario_env (always Timeout) no_sends)
          (scenario_config [] (Given 300))) = Inl (ValueError ''Auth service endpoint must be provided.'')"
  using construction_rejects_missing_settings [of "scenario_config [] (Given 300)"
      "\<lparr>endpoint = Given [], user_email = Given ''ops@example.com'',
         user_api_key_file = Given ''api_key.txt'', user_api_key = Absent,
         refresh_interval = Given 300\<rparr>" "scenario_env (always Timeout) no_sends"]
  by (simp add: scenario_config_def AuthService_init_def read_api_key_def init_checks_def scenario_env_def)

section \<open>Disposal\<close>

text \<open>The object left behind is \<open>Ready\<close> exactly when the constructor returned.\<close>

lemma AuthService_object_Ready:
  "(AuthService_object e cfg = Ready s) = (fst (AuthService_init e cfg) = Inr s)"
proof (cases "auth_service_cfg cfg")
  case None
  then show ?thesis by (simp add: AuthService_object_def AuthService_init_def)
next
  case (Some sec)
  then show ?thesis
    by (cases "endpoint sec"; cases "user_email sec"; cases "user_api_key_file sec";
        cases "read_api_key e sec (user_api_key_file sec)")
       (simp_all add: AuthService_object_def AuthService_init_def Let_def split: sum.splits)
qed

text \<open>
  On an object whose attribute \<open>__auth_scheduler\<close> exists, \<open>__del__\<close> does not raise:
  without a scheduler it changes nothing; when \<open>shutdown\<close> raises (the scheduler is
  already stopped, or the environment's failure) the exception is swallowed; when
  \<open>shutdown\<close> completes, the scheduler is stopped with no job left, and a tick no
  longer fetches.
\<close>

lemma dispose_constructed_never_raises:
  "fst (AuthService_del e Reset) = Returns \<and>
   fst (AuthService_del e (Ready s)) \<noteq> Raises x \<and>
   (auth_scheduler s = None \<longrightarrow> AuthService_del e (Ready s) = (Returns, Ready s)) \<and>
   (\<forall>sch. auth_scheduler s = Some sch \<and> \<not> running sch \<longrightarrow>
        AuthService_del e (Ready s) = (Returns, Ready s)) \<and>
   (\<forall>sch y. auth_scheduler s = Some sch \<and> running sch \<and> shutdown_event e = Fails y \<longrightarrow>
        AuthService_del e (Ready s) = (Returns, Ready s)) \<and>
   (\<forall>sch. auth_scheduler s = Some sch \<and> running sch \<and> shutdown_event e = Completes \<longrightarrow>
        AuthService_del e (Ready s) =
          (Returns, Ready (s\<lparr>auth_scheduler := Some \<lparr>running = False, jobs = []\<rparr>\<rparr>)) \<and>
        tick e' (s\<lparr>auth_scheduler := Some \<lparr>running = False, jobs = []\<rparr>\<rparr>) =
          s\<lparr>auth_scheduler := Some \<lparr>running = False, jobs = []\<rparr>\<rparr>)"
  by (auto simp add: shutdown_def split: option.splits shutdown_event.splits prod.splits)


section \<open>Sequences of calls\<close>

text \<open>No call changes the endpoint, the encoded credentials or the timeout.\<close>

lemma dispose_step:
  "auth_step e s Dispose =
     (case auth_scheduler s of
        None \<Rightarrow> s
      | Some sch \<Rightarrow> s\<lparr>auth_scheduler := Some (snd (shutdown e sch))\<rparr>)"
  by (cases "auth_scheduler s")
     (auto simp add: split: prod.splits completion.splits)

lemma auth_step_fields:
  "svc_endpoint (auth_step e s op) = svc_endpoint s \<and>
   login_credentials (auth_step e s op) = login_credentials s \<and>
   svc_refresh_interval (auth_step e s op) = svc_refresh_interval s \<and>
   timeout (auth_step e s op) = timeout s"
proof (cases op)
  case Dispose
  then show ?thesis by (simp only: dispose_step) (simp split: option.splits)
qed (simp_all add: get_auth_header_state get_bearer_token_state authenticate_fields
        handle_access_token_fields split: option.splits)

lemma auth_run_fields:
  "svc_endpoint (auth_run e s ops) = svc_endpoint s \<and>
   login_credentials (auth_run e s ops) = login_credentials s \<and>
   svc_refresh_interval (auth_run e s ops) = svc_refresh_interval s \<and>
   timeout (auth_run e s ops) = timeout s"
  unfolding auth_run_def
proof (induction ops arbitrary: s)
  case Nil
  show ?case by simp
next
  case (Cons op ops)
  show ?case using Cons.IH [of "auth_step e s op"] auth_step_fields [of e s op] by simp
qed

text \<open>
  C7. On a service constructed from a configuration, after any sequence of calls, a token
  fetch (as \<open>_authenticate\<close> and the scheduler's job call it) adds exactly one POST to
  the log: to the configured endpoint, with the header \<open>authorization\<close> equal to
  \<open>Basic\<close>, a space and the base64 encoding of email, colon, API key, with the header
  \<open>Content-Type\<close> equal to \<open>application/json\<close>, with the empty JSON object as body
  and with the service's timeout of 5 seconds. This holds whatever the endpoint answers,
  so a failed fetch is not repeated inside the fetch.
\<close>

theorem token_fetch_is_one_post:
  assumes "fst (AuthService_init e cfg) = Inr s0"
    and "auth_service_cfg cfg = Some sec"
    and "endpoint sec = Given ep" and "user_email sec = Given em"
    and "user_api_key_file sec = Given f" and "files e f = Some content"
  shows "posts (snd (handle_access_token e' (auth_run e' s0 ops)
                  (login_credentials (auth_run e' s0 ops)) (timeout (auth_run e' s0 ops)))) =
         posts (auth_run e' s0 ops) @
           [\<lparr>url = ep, json_arg = Map.empty,
             headers_arg = [''Content-Type'' \<mapsto> ''application/json'',
                ''authorization'' \<mapsto> ''Basic '' @ b64encode (em @ '':'' @ strip content)],
             timeout_arg = 5\<rparr>]"
proof -
  from AuthService_init_Inr [OF assms(1)] assms(2-6)
  have s0: "svc_endpoint s0 = ep" "login_credentials s0 = b64encode (em @ '':'' @ strip content)"
    "timeout s0 = 5"
    by auto
  show ?thesis
    using handle_access_token_posts [of e' "auth_run e' s0 ops"
            "login_credentials (auth_run e' s0 ops)" "timeout (auth_run e' s0 ops)"]
      auth_run_fields [of e' s0 ops] s0
    by simp
qed

theorem token_fetch_is_one_post_witness:
  "posts (snd (handle_access_token (scenario_env (always Timeout) no_sends)
       (auth_run (scenario_env (always Timeout) no_sends) fresh_service [GetBearerToken, Tick])
       (login_credentials (auth_run (scenario_env (always Timeout) no_sends) fresh_service [GetBearerToken, Tick]))
       (timeout (auth_run (scenario_env (always Timeout) no_sends) fresh_service [GetBearerToken, Tick])))) =
   posts (auth_run (scenario_env (always Timeout) no_sends) fresh_service [GetBearerToken, Tick]) @
     [\<lparr>url = ''https://login.example/api/loginApi'', json_arg = Map.empty,
       headers_arg = [''Content-Type'' \<mapsto> ''application/json'',
          ''authorization'' \<mapsto> ''Basic b3BzQGV4YW1wbGUuY29tOnNlY3JldA==''],
       timeout_arg = 5\<rparr>]"
  using token_fetch_is_one_post [of "scenario_env (always Timeout) no_sends"
      "scenario_config ''https://login.example/api/loginApi'' (Given 300)" fresh_service
      "\<lparr>endpoint = Given ''https://login.example/api/loginApi'', user_email = Given ''ops@example.com'',
         user_api_key_file = Given ''api_key.txt'', user_api_key = Absent,
         refresh_interval = Given 300\<rparr>"
      "''https://login.example/api/loginApi''" "''ops@example.com''" "''api_key.txt''" "''secret''"
      "scenario_env (always Timeout) no_sends" "[GetBearerToken, Tick]"]
    scenario_init [of 300 "always Timeout" no_sends] b64_scenario strip_secret
  by (simp add: scenario_config_def scenario_env_def fresh_service_def)














section \<open>The query and its single retry\<close>

lemma scenario_client_constructed:
  "GraphqlClient_init (scenario_env (always (Response 200 (Object [''access_token'' \<mapsto> ''old'']))) x)
      (scenario_config ''https://login.example/api/loginApi'' (Given 300)) = Inr scenario_client"
  using scenario_init [of 300 "always (Response 200 (Object [''access_token'' \<mapsto> ''old'']))" x]
  by (simp add: GraphqlClient_init_def initialize_client_def get_auth_header_def
        get_bearer_token_def authenticate_def handle_access_token_def api_url_def url_entry_def
        scenario_client_def cached_service_def fresh_service_def scenario_env_def
        scenario_config_def always_def Let_def)

lemma query_retry:
  assumes "reauthenticated c"
  shows "query e c =
           (case transport e (sends c) of
              Returned r \<Rightarrow> (Inr r, c\<lparr>sends := Suc (sends c), reauthenticated := False\<rparr>)
            | Raised x \<Rightarrow> (Inl x, c\<lparr>sends := Suc (sends c), reauthenticated := False\<rparr>))"
  using assms by (subst query.simps) (simp split: exec_outcome.splits exn.splits)

lemma query_other_error:
  assumes "transport e (sends c) = Raised x" and "x \<noteq> TransportProtocolError"
  shows "query e c = (Inl x, c\<lparr>sends := Suc (sends c), reauthenticated := False\<rparr>)"
  using assms by (subst query.simps) (simp split: exn.splits)

lemma query_success:
  assumes "transport e (sends c) = Returned r"
  shows "query e c = (Inr r, c\<lparr>sends := Suc (sends c), reauthenticated := False\<rparr>)"
  using assms by (subst query.simps) simp

lemma query_first_protocol_error:
  assumes "\<not> reauthenticated c" and "transport e (sends c) = Raised TransportProtocolError"
  shows "query e c =
           (case initialize_client e (c\<lparr>sends := Suc (sends c)\<rparr>) of
              (Inl y, c2) \<Rightarrow> (Inl y, c2\<lparr>reauthenticated := False\<rparr>)
            | (Inr u, c2) \<Rightarrow>
                (case transport e (sends c2) of
                   Returned r \<Rightarrow>
                     (Inr Map.empty, c2\<lparr>sends := Suc (sends c2), reauthenticated := False\<rparr>)
                 | Raised y \<Rightarrow>
                     (Inl y, c2\<lparr>sends := Suc (sends c2), reauthenticated := False\<rparr>)))"
  using assms
  by (subst query.simps)
     (simp add: query_retry split: prod.splits sum.splits exec_outcome.splits)

lemma initialize_client_counters:
  "sends (snd (initialize_client e c)) = sends c"
  "inits (snd (initialize_client e c)) = Suc (inits c)"
  "reauthenticated (snd (initialize_client e c)) = reauthenticated c"
  by (cases "get_auth_header e (auth c)";
      simp add: initialize_client_def split: sum.splits option.splits)+

lemma initialize_client_sends:
  "initialize_client e (c\<lparr>sends := n\<rparr>) =
     (fst (initialize_client e c), (snd (initialize_client e c))\<lparr>sends := n\<rparr>)"
  by (cases "get_auth_header e (auth c)")
     (simp add: initialize_client_def split: sum.splits option.splits)

lemma query_counters:
  "sends c < sends (snd (query e c)) \<and> sends (snd (query e c)) \<le> sends c + 2 \<and>
   inits (snd (query e c)) \<le> inits c + 1 \<and> \<not> reauthenticated (snd (query e c))"
proof (cases "transport e (sends c)")
  case (Returned r)
  then show ?thesis by (simp add: query_success)
next
  case (Raised x)
  show ?thesis
  proof (cases "x = TransportProtocolError \<and> \<not> reauthenticated c")
    case False
    then show ?thesis
      using Raised by (cases "reauthenticated c") (simp_all add: query_retry query_other_error)
  next
    case True
    obtain r c2 where i: "initialize_client e (c\<lparr>sends := Suc (sends c)\<rparr>) = (r, c2)"
      by (cases "initialize_client e (c\<lparr>sends := Suc (sends c)\<rparr>)")
    have c2: "sends c2 = Suc (sends c)" "inits c2 = Suc (inits c)"
      using initialize_client_counters [of e "c\<lparr>sends := Suc (sends c)\<rparr>"] i by simp_all
    show ?thesis
      using True Raised i c2
      by (simp add: query_first_protocol_error split: sum.splits exec_outcome.splits)
  qed
qed

lemma query_two_protocol_errors:
  assumes "\<not> reauthenticated c"
    and "transport e (sends c) = Raised TransportProtocolError"
    and "fst (initialize_client e c) = Inr ()"
    and "transport e (Suc (sends c)) = Raised y"
  shows "fst (query e c) = Inl y \<and> sends (snd (query e c)) = sends c + 2 \<and>
         inits (snd (query e c)) = inits c + 1"
proof -
  let ?c2 = "(snd (initialize_client e c))\<lparr>sends := Suc (sends c)\<rparr>"
  have i: "initialize_client e (c\<lparr>sends := Suc (sends c)\<rparr>) = (Inr (), ?c2)"
    using assms(3) by (simp add: initialize_client_sends)
  have c2: "sends ?c2 = Suc (sends c)" "inits ?c2 = Suc (inits c)"
    using initialize_client_counters [of e c] by simp_all
  show ?thesis
    using assms(1,2,4) i c2 by (simp add: query_first_protocol_error)
qed

lemma query_retry_success:
  assumes "\<not> reauthenticated c"
    and "transport e (sends c) = Raised TransportProtocolError"
    and "fst (initialize_client e c) = Inr ()"
    and "transport e (Suc (sends c)) = Returned r"
  shows "fst (query e c) = Inr Map.empty \<and> sends (snd (query e c)) = sends c + 2 \<and>
         inits (snd (query e c)) = inits c + 1"
proof -
  let ?c2 = "(snd (initialize_client e c))\<lparr>sends := Suc (sends c)\<rparr>"
  have i: "initialize_client e (c\<lparr>sends := Suc (sends c)\<rparr>) = (Inr (), ?c2)"
    using assms(3) by (simp add: initialize_client_sends)
  have c2: "sends ?c2 = Suc (sends c)" "inits ?c2 = Suc (inits c)"
    using initialize_client_counters [of e c] by simp_all
  show ?thesis
    using assms(1,2,4) i c2 by (simp add: query_first_protocol_error)
qed

lemma query_async_retry_success:
  assumes "\<not> reauthenticated c"
    and "transport e (sends c) = Raised TransportProtocolError"
    and "fst (initialize_client e c) = Inr ()"
    and "transport e (Suc (sends c)) = Returned r"
  shows "fst (query_async e c) = Inl TypeError \<and> sends (snd (query_async e c)) = sends c + 2 \<and>
         inits (snd (query_async e c)) = inits c + 1"
proof -
  let ?c2 = "(snd (initialize_client e c))\<lparr>sends := Suc (sends c)\<rparr>"
  have i: "initialize_client e (c\<lparr>sends := Suc (sends c)\<rparr>) = (Inr (), ?c2)"
    using assms(3) by (simp add: initialize_client_sends)
  have c2: "sends ?c2 = Suc (sends c)" "inits ?c2 = Suc (inits c)"
    using initialize_client_counters [of e c] by simp_all
  show ?thesis
    using assms(1,2,4) i c2 by (simp add: query_async_def query_retry)
qed

text \<open>
  C2. Every call of \<open>query\<close> performs at most two sends and at most one
  re-initialization of the transport, and leaves the flag \<open>_reauthenticated\<close> reset, so
  the next call starts fresh. When the first send and the send after a successful
  re-initialization both raise \<open>TransportProtocolError\<close>, the call raises that error
  after exactly two sends and exactly one re-initialization.
\<close>

theorem query_retries_at_most_once:
  "sends (snd (query e c)) \<le> sends c + 2 \<and> inits (snd (query e c)) \<le> inits c + 1 \<and>
   \<not> reauthenticated (snd (query e c)) \<and>
   (\<not> reauthenticated c \<and> transport e (sends c) = Raised TransportProtocolError \<and>
    fst (initialize_client e c) = Inr () \<and>
    transport e (Suc (sends c)) = Raised TransportProtocolError \<longrightarrow>
      fst (query e c) = Inl TransportProtocolError \<and>
      sends (snd (query e c)) = sends c + 2 \<and> inits (snd (query e c)) = inits c + 1)"
  using query_counters [of c e] query_two_protocol_errors [of c e TransportProtocolError]
  by blast

lemma scenario_reinit:
  "fst (initialize_client (scenario_env h x) scenario_client) = Inr ()"
  by (simp add: initialize_client_def get_auth_header_def get_bearer_token_def api_url_def
        url_entry_def scenario_client_def cached_service_def fresh_service_def scenario_env_def
        scenario_config_def)

theorem query_retries_at_most_once_witness:
  "fst (query (scenario_env (always Timeout) (always (Raised TransportProtocolError))) scenario_client)
     = Inl TransportProtocolError \<and>
   sends (snd (query (scenario_env (always Timeout) (always (Raised TransportProtocolError))) scenario_client)) = 2 \<and>
   inits (snd (query (scenario_env (always Timeout) (always (Raised TransportProtocolError))) scenario_client)) = 2 \<and>
   \<not> reauthenticated (snd (query (scenario_env (always Timeout) (always (Raised TransportProtocolError))) scenario_client))"
  using query_retries_at_most_once [of "scenario_env (always Timeout) (always (Raised TransportProtocolError))" scenario_client]
    scenario_reinit [of "always Timeout" "always (Raised TransportProtocolError)"]
  by (simp add: scenario_client_def scenario_env_def always_def)

text \<open>
  C1. The first send raises \<open>TransportProtocolError\<close>, the transport is re-initialized
  once, and the second send returns the response \<open>{"data": "robots"}\<close>: \<open>query\<close>
  makes two sends and one re-initialization, but returns the empty dictionary, not the
  second attempt's response, because the handler does not return the value of the
  recursive call; \<open>query_async\<close> raises \<open>TypeError\<close> there. The lemmas
  \<open>query_retry_success\<close> and \<open>query_async_retry_success\<close> show the same for every
  environment and client.
\<close>

theorem retried_response_is_dropped:
  "transport (scenario_env (always Timeout)
       (protocol_error_then (Returned [''data'' \<mapsto> ''robots'']))) 0 = Raised TransportProtocolError \<and>
   transport (scenario_env (always Timeout)
       (protocol_error_then (Returned [''data'' \<mapsto> ''robots'']))) 1 = Returned [''data'' \<mapsto> ''robots''] \<and>
   fst (query (scenario_env (always Timeout)
       (protocol_error_then (Returned [''data'' \<mapsto> ''robots'']))) scenario_client) = Inr Map.empty \<and>
   fst (query (scenario_env (always Timeout)
       (protocol_error_then (Returned [''data'' \<mapsto> ''robots'']))) scenario_client)
     \<noteq> Inr [''data'' \<mapsto> ''robots''] \<and>
   sends (snd (query (scenario_env (always Timeout)
       (protocol_error_then (Returned [''data'' \<mapsto> ''robots'']))) scenario_client)) = 2 \<and>
   inits (snd (query (scenario_env (always Timeout)
       (protocol_error_then (Returned [''data'' \<mapsto> ''robots'']))) scenario_client)) = Suc (inits scenario_client) \<and>
   fst (query_async (scenario_env (always Timeout)
       (protocol_error_then (Returned [''data'' \<mapsto> ''robots'']))) scenario_client) = Inl TypeError"
proof -
  let ?e = "scenario_env (always Timeout) (protocol_error_then (Returned [''data'' \<mapsto> ''robots'']))"
  have t0: "transport ?e (sends scenario_client) = Raised TransportProtocolError"
    by (simp add: scenario_env_def protocol_error_then_def scenario_client_def)
  have t1: "transport ?e (Suc (sends scenario_client)) = Returned [''data'' \<mapsto> ''robots'']"
    by (simp add: scenario_env_def protocol_error_then_def scenario_client_def)
  have f: "\<not> reauthenticated scenario_client" by (simp add: scenario_client_def)
  have s0: "sends scenario_client = 0" by (simp add: scenario_client_def)
  have ne: "(Map.empty :: response) \<noteq> [''data'' \<mapsto> ''robots'']"
    by (metis map_upd_nonempty)
  show ?thesis
    using query_retry_success [OF f t0 scenario_reinit t1]
      query_async_retry_success [OF f t0 scenario_reinit t1] t0 t1 s0 ne
    by simp
qed

end
